theory Spec2Isabelle
  imports Complex_Main "HOL-Library.Char_ord" "HOL-Library.List_Lexorder"
begin

section \<open>Dynamics Theme: the automatic theme switcher of \<^verbatim>\<open>main.py\<close>\<close>

text \<open>
  The development embeds the functions of \<^verbatim>\<open>src/main.py\<close> that decide the theme:
  the time-of-day strings and their comparison, \<^verbatim>\<open>set_windows_theme\<close>,
  \<^verbatim>\<open>get_current_theme\<close>, \<^verbatim>\<open>automatic_data\<close>, the two loops of
  \<^verbatim>\<open>automatic_theme\<close>, and the controller functions \<^verbatim>\<open>select_theme\<close>,
  \<^verbatim>\<open>start_automatic\<close> and \<^verbatim>\<open>create_tray_icon\<close>.

  Python strings are \<^typ>\<open>string\<close>; \<^verbatim>\<open><\<close> on strings is the lexicographic order
  on code points, which is the order of \<^typ>\<open>char list\<close> here. Console output
  (\<^verbatim>\<open>print\<close>), the menu translations and the language detection have no effect on
  any value below and are left out.
\<close>

subsection \<open>Time-of-day strings\<close>

text \<open>
  A naive \<^verbatim>\<open>datetime\<close> is a count of microseconds since 0001-01-01 00:00:00, and a
  \<^verbatim>\<open>timedelta\<close> is a count of microseconds: Python's arithmetic on both is exact
  integer arithmetic at that resolution, so \<^verbatim>\<open>datetime + timedelta\<close> is \<open>+\<close>.
  The attributes \<^verbatim>\<open>hour\<close>, \<^verbatim>\<open>minute\<close> and \<^verbatim>\<open>second\<close> are read off the count.
\<close>

type_synonym datetime = int
type_synonym timedelta = int

definition hour :: "datetime \<Rightarrow> nat" where
  "hour d = nat ((d div 3600000000) mod 24)"

definition minute :: "datetime \<Rightarrow> nat" where
  "minute d = nat ((d div 60000000) mod 60)"

definition second :: "datetime \<Rightarrow> nat" where
  "second d = nat ((d div 1000000) mod 60)"

text \<open>\<^verbatim>\<open>%H\<close>, \<^verbatim>\<open>%M\<close> and \<^verbatim>\<open>%S\<close> print a field as two decimal digits, zero-padded.\<close>

definition digit :: "nat \<Rightarrow> char" where
  "digit n = char_of (48 + n)"

definition pad2 :: "nat \<Rightarrow> string" where
  "pad2 n = [digit (n div 10), digit (n mod 10)]"

definition strftime_HMS :: "datetime \<Rightarrow> string" where
  "strftime_HMS d = pad2 (hour d) @ '':'' @ pad2 (minute d) @ '':'' @ pad2 (second d)"

text \<open>The second of the day a \<^verbatim>\<open>datetime\<close> falls on: the chronological time of day.\<close>

definition second_of_day :: "datetime \<Rightarrow> int" where
  "second_of_day d = (d div 1000000) mod 86400"

text \<open>
  \<^verbatim>\<open>sun_time_local\<close> (lines 204-223): the local UTC offset is \<^verbatim>\<open>None\<close> or a
  \<^verbatim>\<open>timedelta\<close>; with an offset both instants are shifted and formatted.
\<close>

definition sun_time_local :: "timedelta option \<Rightarrow> datetime \<Rightarrow> datetime \<Rightarrow> (string \<times> string) option" where
  "sun_time_local local_offset sunrise_datetime_utc sunset_datetime_utc =
     (case local_offset of
        None \<Rightarrow> None
      | Some off \<Rightarrow>
          (let sunrise_time_local = sunrise_datetime_utc + off;
               sunset_time_local = sunset_datetime_utc + off
           in Some (strftime_HMS sunrise_time_local, strftime_HMS sunset_time_local)))"

text \<open>
  \<^verbatim>\<open>get_local_time\<close> (lines 243-249); the argument is the value of
  \<^verbatim>\<open>datetime.now()\<close>.
\<close>

definition get_local_time :: "datetime \<Rightarrow> string" where
  "get_local_time datetime_now = strftime_HMS datetime_now"

subsection \<open>The desired theme\<close>

text \<open>
  Line 298: \<^verbatim>\<open>desired_theme = "light" if sunrise < local_time < sunset else "dark"\<close>.
  Python's chained comparison is the conjunction of the two comparisons.
\<close>

definition desired_theme :: "string \<Rightarrow> string \<Rightarrow> string \<Rightarrow> string" where
  "desired_theme sunrise local_time sunset =
     (if sunrise < local_time \<and> local_time < sunset then ''light'' else ''dark'')"

subsection \<open>The operating system: registry values, tray icon, broadcasts\<close>

text \<open>
  The two registry values under \<^verbatim>\<open>Themes\Personalize\<close> (absent, or a DWORD), the
  image shown by the tray icon (\<^verbatim>\<open>None\<close> while the global \<^verbatim>\<open>icon\<close> is
  \<^verbatim>\<open>None\<close>), and the number of \<^verbatim>\<open>WM_SETTINGCHANGE\<close> broadcasts sent.
\<close>

record world =
  AppsUseLightTheme :: "nat option"
  SystemUsesLightTheme :: "nat option"
  icon :: "string option"
  broadcasts :: nat

text \<open>
  Every call into the operating system may raise. Which calls raise is an input of the
  model: a predicate on the operations.
\<close>

datatype winop =
    OpenKeyWrite | SetAppsUseLightTheme | SetSystemUsesLightTheme | ImageOpen | SendMessageW
  | OpenKeyRead | QueryValueEx

datatype exn = Raised winop

text \<open>
  \<^verbatim>\<open>set_windows_theme\<close> (lines 86-121). \<open>write_theme\<close> is the part of the
  \<^verbatim>\<open>try\<close> block after the \<^verbatim>\<open>if/elif/else\<close> chain (lines 110-118), which both
  valid branches reach; \<open>try_set_windows_theme\<close> is the whole \<^verbatim>\<open>try\<close> block, and
  \<open>set_windows_theme\<close> adds the \<^verbatim>\<open>except Exception\<close> handler. A write that
  happened before an exception stays written.
\<close>

definition write_theme :: "(winop \<Rightarrow> bool) \<Rightarrow> nat \<Rightarrow> string \<Rightarrow> world \<Rightarrow> (exn + bool) \<times> world" where
  "write_theme raises theme_value icon_path w =
     (if raises SetAppsUseLightTheme then (Inl (Raised SetAppsUseLightTheme), w)
      else
        let w1 = w\<lparr>AppsUseLightTheme := Some theme_value\<rparr> in
        if raises SetSystemUsesLightTheme then (Inl (Raised SetSystemUsesLightTheme), w1)
        else
          let w2 = w1\<lparr>SystemUsesLightTheme := Some theme_value\<rparr> in
          if icon w2 \<noteq> None \<and> raises ImageOpen then (Inl (Raised ImageOpen), w2)
          else
            let w3 = (if icon w2 \<noteq> None then w2\<lparr>icon := Some icon_path\<rparr> else w2) in
            if raises SendMessageW then (Inl (Raised SendMessageW), w3)
            else (Inr True, w3\<lparr>broadcasts := broadcasts w3 + 1\<rparr>))"

definition try_set_windows_theme :: "(winop \<Rightarrow> bool) \<Rightarrow> string \<Rightarrow> world \<Rightarrow> (exn + bool) \<times> world" where
  "try_set_windows_theme raises theme w =
     (if raises OpenKeyWrite then (Inl (Raised OpenKeyWrite), w)
      else if theme = ''light'' then write_theme raises 1 ''lib/icon_light.png'' w
      else if theme = ''dark'' then write_theme raises 0 ''lib/icon_dark.png'' w
      else (Inr False, w))"

definition set_windows_theme :: "(winop \<Rightarrow> bool) \<Rightarrow> string \<Rightarrow> world \<Rightarrow> bool \<times> world" where
  "set_windows_theme raises theme w =
     (case try_set_windows_theme raises theme w of
        (Inl e, w') \<Rightarrow> (False, w')
      | (Inr r, w') \<Rightarrow> (r, w'))"

text \<open>\<^verbatim>\<open>get_current_theme\<close> (lines 150-162): the value read, or \<^verbatim>\<open>None\<close> on any exception.\<close>

definition get_current_theme :: "(winop \<Rightarrow> bool) \<Rightarrow> world \<Rightarrow> nat option" where
  "get_current_theme raises w =
     (if raises OpenKeyRead then None
      else if raises QueryValueEx then None
      else AppsUseLightTheme w)"

subsection \<open>The run-loop \<^verbatim>\<open>automatic_theme\<close>\<close>

text \<open>
  What the run-loop asks of its surroundings, as functions of the seconds elapsed since
  the loop's thread started: the answer of \<^verbatim>\<open>get_location\<close>, of
  \<^verbatim>\<open>get_sunrise_and_sunset\<close> and of the UTC offset lookup inside
  \<^verbatim>\<open>sun_time_local\<close>, the value of \<^verbatim>\<open>datetime.now()\<close>, what
  \<^verbatim>\<open>stop_event.is_set()\<close> returns (read through the global name), and the calls of
  \<^verbatim>\<open>set_windows_theme\<close> that raise. The loop spends its time in
  \<^verbatim>\<open>time.sleep\<close>; every other statement takes no time here.
\<close>

record env =
  get_location :: "nat \<Rightarrow> (real \<times> real) option"
  get_sunrise_and_sunset :: "nat \<Rightarrow> real \<Rightarrow> real \<Rightarrow> (datetime \<times> datetime) option"
  utcoffset :: "nat \<Rightarrow> timedelta option"
  datetime_now :: "nat \<Rightarrow> datetime"
  is_set :: "nat \<Rightarrow> bool"
  faults :: "nat \<Rightarrow> winop \<Rightarrow> bool"

text \<open>\<^verbatim>\<open>automatic_data\<close> (lines 226-240), called \<open>t\<close> seconds into the run.\<close>

definition automatic_data :: "env \<Rightarrow> nat \<Rightarrow> (string \<times> string) option" where
  "automatic_data e t =
     (case get_location e t of
        None \<Rightarrow> None
      | Some (latitude, longitude) \<Rightarrow>
          (case get_sunrise_and_sunset e t latitude longitude of
             None \<Rightarrow> None
           | Some (sunrise_datetime_utc, sunset_datetime_utc) \<Rightarrow>
               sun_time_local (utcoffset e t) sunrise_datetime_utc sunset_datetime_utc))"

text \<open>
  The local variables of \<^verbatim>\<open>automatic_theme\<close>, the operating system it writes to,
  and three records of what it did: the seconds elapsed (\<open>now\<close>), the durations
  passed to \<^verbatim>\<open>time.sleep\<close> in order (\<open>sleeps\<close>), and the calls of
  \<^verbatim>\<open>set_windows_theme\<close> in order, each with its instant and its argument
  (\<open>calls\<close>).
\<close>

record loop =
  now :: nat
  backoff :: nat
  sun_times :: "(string \<times> string) option"
  current_applied_theme :: "string option"
  os :: world
  sleeps :: "nat list"
  calls :: "(nat \<times> string) list"

definition max_backoff :: nat where
  "max_backoff = 600"

text \<open>\<^verbatim>\<open>time.sleep(d)\<close> returns after \<open>d\<close> seconds; it takes no other argument.\<close>

definition sleep :: "nat \<Rightarrow> loop \<Rightarrow> loop" where
  "sleep d s = s\<lparr>now := now s + d, sleeps := sleeps s @ [d]\<rparr>"

text \<open>The body of the first loop (lines 282-285).\<close>

definition retry :: "env \<Rightarrow> loop \<Rightarrow> loop" where
  "retry e s =
     (let s1 = sleep (backoff s) s;
          s2 = s1\<lparr>backoff := min (backoff s1 * 2) max_backoff\<rparr>
      in s2\<lparr>sun_times := automatic_data e (now s2)\<rparr>)"

text \<open>The first loop (line 281). It need not end: then the value is \<open>None\<close>.\<close>

partial_function (option) resolve_loop :: "env \<Rightarrow> loop \<Rightarrow> loop option" where
  "resolve_loop e s =
     (if sun_times s = None \<and> \<not> is_set e (now s) then resolve_loop e (retry e s) else Some s)"

text \<open>Lines 302-303: the call of \<^verbatim>\<open>set_windows_theme\<close> and the update on success.\<close>

definition apply_desired :: "env \<Rightarrow> string \<Rightarrow> loop \<Rightarrow> loop" where
  "apply_desired e desired s =
     (case set_windows_theme (faults e (now s)) desired (os s) of
        (ok, w') \<Rightarrow>
          (let s1 = s\<lparr>os := w', calls := calls s @ [(now s, desired)]\<rparr>
           in if ok then s1\<lparr>current_applied_theme := Some desired\<rparr> else s1))"

text \<open>The body of the second loop (lines 295-305).\<close>

definition tick :: "env \<Rightarrow> string \<Rightarrow> string \<Rightarrow> loop \<Rightarrow> loop" where
  "tick e sunrise sunset s =
     (let local_time = get_local_time (datetime_now e (now s));
          desired = desired_theme sunrise local_time sunset;
          s1 = (if Some desired \<noteq> current_applied_theme s then apply_desired e desired s else s)
      in sleep 60 s1)"

text \<open>The second loop (line 294).\<close>

partial_function (option) poll_loop :: "env \<Rightarrow> string \<Rightarrow> string \<Rightarrow> loop \<Rightarrow> loop option" where
  "poll_loop e sunrise sunset s =
     (if \<not> is_set e (now s) then poll_loop e sunrise sunset (tick e sunrise sunset s) else Some s)"

text \<open>The state at line 279, after the first call of \<^verbatim>\<open>automatic_data\<close>.\<close>

definition start :: "env \<Rightarrow> world \<Rightarrow> loop" where
  "start e w =
     \<lparr>now = 0, backoff = 30, sun_times = automatic_data e 0, current_applied_theme = None,
      os = w, sleeps = [], calls = []\<rparr>"

text \<open>
  \<^verbatim>\<open>automatic_theme\<close> (lines 275-305): the first loop, the early return when no
  schedule was resolved (lines 287-289), then the second loop from
  \<^verbatim>\<open>current_applied_theme = None\<close>.
\<close>

definition automatic_theme :: "env \<Rightarrow> world \<Rightarrow> loop option" where
  "automatic_theme e w =
     (case resolve_loop e (start e w) of
        None \<Rightarrow> None
      | Some s \<Rightarrow>
          (case sun_times s of
             None \<Rightarrow> Some s
           | Some (sunrise, sunset) \<Rightarrow>
               poll_loop e sunrise sunset (s\<lparr>current_applied_theme := None\<rparr>)))"

text \<open>Sample inputs: a world with the light theme applied, and two fault patterns.\<close>

definition w0 :: world where
  "w0 = \<lparr>AppsUseLightTheme = Some 1, SystemUsesLightTheme = Some 1,
         icon = Some ''lib/icon_light.png'', broadcasts = 0\<rparr>"

definition no_raise :: "winop \<Rightarrow> bool" where
  "no_raise op = False"

definition only_raises :: "winop \<Rightarrow> winop \<Rightarrow> bool" where
  "only_raises bad op = (op = bad)"

text \<open>
  Sample environments. In \<open>env_day\<close> the schedule resolves at the first attempt to
  sunrise \<open>06:30:00\<close> and sunset \<open>20:15:00\<close>, the clock reads \<open>06:29:59\<close>,
  \<open>06:30:01\<close>, \<open>20:14:59\<close> and \<open>20:15:00\<close> at the first four ticks, the stop
  event is set once 240 seconds have passed, and no call raises. \<open>env_night\<close>
  differs in its clock, which starts at \<open>02:00:00\<close> and advances with the elapsed
  seconds; in \<open>env_locked\<close> the registry key cannot be opened for writing.
  \<open>night_applied\<close> is a loop state whose applied theme is already \<open>dark\<close>.
\<close>

definition env_day :: env where
  "env_day =
     \<lparr>get_location = (\<lambda>t. Some (55.75, 37.62)),
      get_sunrise_and_sunset = (\<lambda>t latitude longitude. Some (12600000000, 62100000000)),
      utcoffset = (\<lambda>t. Some 10800000000),
      datetime_now = (\<lambda>t. if t < 60 then 23399000000 else if t < 120 then 23401000000
                            else if t < 180 then 72899000000 else 72900000000),
      is_set = (\<lambda>t. 240 \<le> t),
      faults = (\<lambda>t. no_raise)\<rparr>"

definition env_night :: env where
  "env_night = env_day\<lparr>datetime_now := (\<lambda>t. 7200000000 + int t * 1000000)\<rparr>"

definition env_locked :: env where
  "env_locked = env_night\<lparr>faults := (\<lambda>t. only_raises OpenKeyWrite)\<rparr>"

definition night_applied :: loop where
  "night_applied = (start env_night w0)\<lparr>current_applied_theme := Some ''dark''\<rparr>"

text \<open>
  The waits the specification names: the first is 30 seconds, each later one is the
  previous one doubled and capped at 600. \<open>attempt_time k\<close> is the instant of attempt
  \<open>k\<close> (counted from 0) when every earlier attempt failed: the sum of the first
  \<open>k\<close> waits.
\<close>

fun backoff_after :: "nat \<Rightarrow> nat" where
  "backoff_after 0 = 30"
| "backoff_after (Suc k) = min (backoff_after k * 2) 600"

definition attempt_time :: "nat \<Rightarrow> nat" where
  "attempt_time k = sum_list (map backoff_after [0..<k])"

text \<open>
  In \<open>env_flaky\<close> the location lookup fails until 90 seconds have passed: the first
  two attempts fail and the third succeeds.
\<close>

definition env_flaky :: env where
  "env_flaky = env_day\<lparr>get_location := (\<lambda>t. if t < 90 then None else Some (55.75, 37.62))\<rparr>"

text \<open>
  What holds of a run-loop while the stop event, raised at instant \<open>r\<close>, has not
  been seen: the elapsed time is the sum of the sleeps, each of which ran its full
  duration; the last sleep began before \<open>r\<close>; every call of
  \<^verbatim>\<open>set_windows_theme\<close> was made before \<open>r\<close>.
\<close>

definition waits_complete :: "nat \<Rightarrow> loop \<Rightarrow> bool" where
  "waits_complete r s \<longleftrightarrow>
     now s = sum_list (sleeps s)
     \<and> (sleeps s \<noteq> [] \<longrightarrow> now s - last (sleeps s) < r)
     \<and> (\<forall>c \<in> set (calls s). fst c < r)"

text \<open>
  Two environments in which the stop event is set one second into the run: during the
  first 60-second sleep of the polling loop (\<open>env_cancel_tick\<close>), and during the first
  30-second backoff sleep (\<open>env_cancel_backoff\<close>).
\<close>

definition env_cancel_tick :: env where
  "env_cancel_tick = env_day\<lparr>is_set := (\<lambda>t. 1 \<le> t)\<rparr>"

definition env_cancel_backoff :: env where
  "env_cancel_backoff = env_flaky\<lparr>is_set := (\<lambda>t. 1 \<le> t)\<rparr>"

subsection \<open>The controller: globals, events and threads\<close>

text \<open>
  The state the menu callbacks work on: the operating system with the global
  \<^verbatim>\<open>icon\<close>; the \<^verbatim>\<open>threading.Event\<close> objects created so far, each with its flag
  (\<open>events\<close>); the object the global name \<^verbatim>\<open>stop_event\<close> is bound to, as an index
  into \<open>events\<close>; and the number of run-loop threads started.
\<close>

record prog =
  machine :: world
  stop_event :: nat
  events :: "bool list"
  started :: nat

text \<open>Lines 82-83: one event, not set, and no icon; no thread yet.\<close>

definition initial :: "world \<Rightarrow> prog" where
  "initial w = \<lparr>machine = w\<lparr>icon := None\<rparr>, stop_event = 0, events = [False], started = 0\<rparr>"

text \<open>
  What \<^verbatim>\<open>stop_event.is_set()\<close> returns in a state. The run-loop evaluates it through
  the global name (lines 281 and 294), so every run-loop reads the event the name is
  bound to at that moment.
\<close>

definition stop_event_is_set :: "prog \<Rightarrow> bool" where
  "stop_event_is_set g \<longleftrightarrow> stop_event g < length (events g) \<and> events g ! stop_event g"

text \<open>\<^verbatim>\<open>stop_event.set()\<close> (line 258).\<close>

definition stop_event_set :: "prog \<Rightarrow> prog" where
  "stop_event_set g = g\<lparr>events := (events g)[stop_event g := True]\<rparr>"

text \<open>
  \<^verbatim>\<open>start_automatic\<close> (lines 266-272): a new event, bound to the global name, and a
  new thread running \<^verbatim>\<open>automatic_theme\<close>.
\<close>

definition start_automatic :: "prog \<Rightarrow> prog" where
  "start_automatic g =
     g\<lparr>events := events g @ [False], stop_event := length (events g), started := started g + 1\<rparr>"

text \<open>\<^verbatim>\<open>select_theme\<close> (lines 252-263).\<close>

definition select_theme :: "(winop \<Rightarrow> bool) \<Rightarrow> string \<Rightarrow> prog \<Rightarrow> prog" where
  "select_theme raises theme g =
     (let g1 = stop_event_set g
      in if theme = ''auto'' then start_automatic g1
         else g1\<lparr>machine := snd (set_windows_theme raises theme (machine g1))\<rparr>)"

text \<open>
  \<^verbatim>\<open>create_tray_icon\<close> (lines 320-343) up to the call of \<^verbatim>\<open>icon.run()\<close>, which
  blocks in the menu loop. \<^verbatim>\<open>if current_theme\<close> is true of every integer but 0. An
  exception of \<^verbatim>\<open>Image.open\<close> is not caught here.
\<close>

definition create_tray_icon :: "(winop \<Rightarrow> bool) \<Rightarrow> prog \<Rightarrow> exn + prog" where
  "create_tray_icon raises g =
     (case get_current_theme raises (machine g) of
        None \<Rightarrow> Inr g
      | Some current_theme \<Rightarrow>
          (let icon_path = ''lib/icon_'' @ (if current_theme \<noteq> 0 then ''light'' else ''dark'') @ ''.png''
           in if raises ImageOpen then Inl (Raised ImageOpen)
              else Inr (start_automatic (g\<lparr>machine := (machine g)\<lparr>icon := Some icon_path\<rparr>\<rparr>))))"

text \<open>The state after a start-up in which the light theme was read.\<close>

definition after_startup :: prog where
  "after_startup =
     \<lparr>machine = w0, stop_event = 1, events = [False, False], started = 1\<rparr>"

section \<open>Theorems\<close>

subsection \<open>Characters and digits\<close>

lemma digit_numerals:
  "digit 0 = CHR ''0''" "digit 1 = CHR ''1''" "digit 2 = CHR ''2''" "digit 3 = CHR ''3''"
  "digit 4 = CHR ''4''" "digit 5 = CHR ''5''" "digit 6 = CHR ''6''" "digit 7 = CHR ''7''"
  "digit 8 = CHR ''8''" "digit 9 = CHR ''9''" "digit (Suc 0) = CHR ''1''"
  by (simp_all add: digit_def char_of_def bit_Suc_0_iff)

lemma two_digit_less:
  fixes qx qy rx ry :: nat
  assumes "rx < 10" "ry < 10"
  shows "10 * qx + rx < 10 * qy + ry \<longleftrightarrow> qx < qy \<or> qx = qy \<and> rx < ry"
  using assms by linarith

lemma digit_less_iff: "a < 10 \<Longrightarrow> b < 10 \<Longrightarrow> digit a < digit b \<longleftrightarrow> a < b"
  by (simp add: digit_def less_char_def)

lemma digit_eq_iff: "a < 10 \<Longrightarrow> b < 10 \<Longrightarrow> digit a = digit b \<longleftrightarrow> a = b"
  by (simp add: digit_def)

lemma pad2_less:
  assumes "x < 100" "y < 100"
  shows "pad2 x < pad2 y \<longleftrightarrow> x < y"
proof -
  have d: "x div 10 < 10" "y div 10 < 10"
    using assms by (simp_all add: less_mult_imp_div_less)
  have "pad2 x < pad2 y \<longleftrightarrow>
          x div 10 < y div 10 \<or> x div 10 = y div 10 \<and> x mod 10 < y mod 10"
    by (simp add: pad2_def digit_less_iff digit_eq_iff d)
  also have "\<dots> \<longleftrightarrow> 10 * (x div 10) + x mod 10 < 10 * (y div 10) + y mod 10"
    by (rule two_digit_less [symmetric]) simp_all
  also have "\<dots> \<longleftrightarrow> x < y"
    by simp
  finally show ?thesis .
qed

lemma pad2_inject:
  assumes "x < 100" "y < 100"
  shows "pad2 x = pad2 y \<longleftrightarrow> x = y"
proof
  assume "pad2 x = pad2 y"
  then have "\<not> pad2 x < pad2 y" "\<not> pad2 y < pad2 x" by simp_all
  then have "\<not> x < y" "\<not> y < x" using assms by (simp_all add: pad2_less)
  then show "x = y" by simp
qed simp

lemma append_less_same_length:
  fixes xs ys us vs :: "'a::linorder list"
  assumes "length xs = length ys"
  shows "xs @ us < ys @ vs \<longleftrightarrow> xs < ys \<or> xs = ys \<and> us < vs"
  using assms by (induction xs ys rule: list_induct2) auto

lemma length_pad2: "length (pad2 n) = 2"
  by (simp add: pad2_def)

lemma fields_bounded: "hour d < 24" "minute d < 60" "second d < 60"
  by (simp_all add: hour_def minute_def second_def nat_less_iff)

lemma strftime_less:
  "strftime_HMS a < strftime_HMS b \<longleftrightarrow>
     hour a < hour b \<or> hour a = hour b \<and>
       (minute a < minute b \<or> minute a = minute b \<and> second a < second b)"
proof -
  have b: "hour a < 100" "hour b < 100" "minute a < 100" "minute b < 100"
    "second a < 100" "second b < 100"
    using fields_bounded [of a] fields_bounded [of b] by simp_all
  show ?thesis
    unfolding strftime_HMS_def
    by (simp add: append_less_same_length length_pad2 pad2_less pad2_inject b)
qed

lemma strftime_inject:
  "strftime_HMS a = strftime_HMS b \<longleftrightarrow>
     hour a = hour b \<and> minute a = minute b \<and> second a = second b"
proof -
  have b: "hour a < 100" "hour b < 100" "minute a < 100" "minute b < 100"
    "second a < 100" "second b < 100"
    using fields_bounded [of a] fields_bounded [of b] by simp_all
  show ?thesis
    unfolding strftime_HMS_def
    by (simp add: length_pad2 pad2_inject b)
qed

lemma second_of_day_fields:
  "second_of_day d = int (hour d) * 3600 + int (minute d) * 60 + int (second d)"
proof -
  define s where "s = d div 1000000"
  define q where "q = s div 60"
  define h where "h = q div 60"
  have hd: "d div 3600000000 = h" and md: "d div 60000000 = q"
    by (simp_all add: h_def q_def s_def div_mult2_eq [symmetric])
  have s: "s = 60 * q + s mod 60" by (simp add: q_def)
  have q: "q = 60 * h + q mod 60" by (simp add: h_def)
  have h: "h = 24 * (h div 24) + h mod 24" by simp
  have "s = 86400 * (h div 24) + (h mod 24 * 3600 + q mod 60 * 60 + s mod 60)"
    using s q h by linarith
  moreover have "0 \<le> h mod 24 * 3600 + q mod 60 * 60 + s mod 60"
    by simp
  moreover have "h mod 24 * 3600 + q mod 60 * 60 + s mod 60 < 86400"
  proof -
    have "h mod 24 < 24" "q mod 60 < 60" "s mod 60 < 60" by simp_all
    then show ?thesis by linarith
  qed
  ultimately have "s mod 86400 = h mod 24 * 3600 + q mod 60 * 60 + s mod 60"
    by (metis mod_pos_pos_trivial mod_mult_self4)
  then show ?thesis
    unfolding second_of_day_def hour_def minute_def second_def hd md s_def [symmetric]
    by simp
qed

lemma second_of_day_less:
  "second_of_day a < second_of_day b \<longleftrightarrow>
     hour a < hour b \<or> hour a = hour b \<and>
       (minute a < minute b \<or> minute a = minute b \<and> second a < second b)"
  using fields_bounded [of a] fields_bounded [of b]
  unfolding second_of_day_fields by linarith

lemma second_of_day_eq:
  "second_of_day a = second_of_day b \<longleftrightarrow>
     hour a = hour b \<and> minute a = minute b \<and> second a = second b"
proof
  assume "second_of_day a = second_of_day b"
  then have "\<not> second_of_day a < second_of_day b" "\<not> second_of_day b < second_of_day a"
    by simp_all
  then show "hour a = hour b \<and> minute a = minute b \<and> second a = second b"
    unfolding second_of_day_less by linarith
next
  assume "hour a = hour b \<and> minute a = minute b \<and> second a = second b"
  then show "second_of_day a = second_of_day b"
    by (simp add: second_of_day_fields)
qed

subsection \<open>The light window is the open interval\<close>

text \<open>
  Claim C1. The desired theme of a tick is \<open>light\<close> exactly when
  \<open>sunrise < local_time < sunset\<close>, both comparisons strict, and \<open>dark\<close> otherwise;
  at \<open>local_time = sunrise\<close> and at \<open>local_time = sunset\<close> it is \<open>dark\<close>.
\<close>

theorem C1_desired_theme_open_interval:
  "(desired_theme sunrise t sunset = ''light'' \<longleftrightarrow> sunrise < t \<and> t < sunset)
   \<and> (desired_theme sunrise t sunset = ''dark'' \<longleftrightarrow> \<not> (sunrise < t \<and> t < sunset))
   \<and> desired_theme sunrise sunrise sunset = ''dark''
   \<and> desired_theme sunrise sunset sunset = ''dark''"
  by (simp add: desired_theme_def)

theorem C1_desired_theme_witness:
  "desired_theme ''06:30:00'' ''06:30:01'' ''20:15:00'' = ''light''
   \<and> desired_theme ''06:30:00'' ''06:30:00'' ''20:15:00'' = ''dark''
   \<and> desired_theme ''06:30:00'' ''20:15:00'' ''20:15:00'' = ''dark''"
  using C1_desired_theme_open_interval [of "''06:30:00''" "''06:30:01''" "''20:15:00''"]
    C1_desired_theme_open_interval [of "''06:30:00''" "''06:30:00''" "''20:15:00''"]
  by simp

subsection \<open>String order is time-of-day order\<close>

text \<open>
  Claim C9. The formatters print a time of day as the eight characters \<open>HH:MM:SS\<close>,
  zero-padded. On such strings the lexicographic order is the chronological order of
  the seconds of the day, and equal strings are equal times of day. Hence for the
  schedule strings of \<^verbatim>\<open>sun_time_local\<close> and the clock string of
  \<^verbatim>\<open>get_local_time\<close> the chained comparison of the tick yields \<open>light\<close> exactly
  when the current time of day lies strictly between sunrise and sunset.
\<close>

theorem C9_string_order_is_time_order:
  "length (strftime_HMS a) = 8
   \<and> (strftime_HMS a < strftime_HMS b \<longleftrightarrow> second_of_day a < second_of_day b)
   \<and> (strftime_HMS a = strftime_HMS b \<longleftrightarrow> second_of_day a = second_of_day b)
   \<and> sun_time_local (Some off) sr ss = Some (strftime_HMS (sr + off), strftime_HMS (ss + off))
   \<and> (desired_theme (strftime_HMS (sr + off)) (get_local_time a) (strftime_HMS (ss + off)) = ''light''
        \<longleftrightarrow> second_of_day (sr + off) < second_of_day a \<and> second_of_day a < second_of_day (ss + off))"
proof -
  have "length (strftime_HMS a) = 8"
    by (simp add: strftime_HMS_def length_pad2)
  moreover have less: "strftime_HMS x < strftime_HMS y \<longleftrightarrow> second_of_day x < second_of_day y" for x y
    by (simp only: strftime_less second_of_day_less)
  moreover have "strftime_HMS a = strftime_HMS b \<longleftrightarrow> second_of_day a = second_of_day b"
    by (simp only: strftime_inject second_of_day_eq)
  moreover have "sun_time_local (Some off) sr ss = Some (strftime_HMS (sr + off), strftime_HMS (ss + off))"
    by (simp add: sun_time_local_def)
  moreover have "desired_theme (strftime_HMS (sr + off)) (get_local_time a) (strftime_HMS (ss + off)) = ''light''
        \<longleftrightarrow> second_of_day (sr + off) < second_of_day a \<and> second_of_day a < second_of_day (ss + off)"
    by (simp add: desired_theme_def get_local_time_def less)
  ultimately show ?thesis by blast
qed

text \<open>
  At 06:29:59 with sunrise 03:30:00 UTC and sunset 17:15:00 UTC, three hours east of
  Greenwich: the strings are \<open>06:30:00\<close> and \<open>20:15:00\<close>, and the clock string sorts
  before sunrise.
\<close>

theorem C9_string_order_witness:
  "strftime_HMS 23399000000 = ''06:29:59''
   \<and> sun_time_local (Some 10800000000) 12600000000 62100000000 = Some (''06:30:00'', ''20:15:00'')
   \<and> ''06:29:59'' < ''06:30:00''
   \<and> second_of_day 23399000000 < second_of_day 23400000000"
proof -
  have s: "strftime_HMS 23399000000 = ''06:29:59''" "strftime_HMS 23400000000 = ''06:30:00''"
    "strftime_HMS 72900000000 = ''20:15:00''"
    by (simp_all add: strftime_HMS_def pad2_def digit_numerals hour_def minute_def second_def)
  have d: "second_of_day 23399000000 < second_of_day 23400000000"
    by (simp add: second_of_day_def)
  show ?thesis
    using C9_string_order_is_time_order [of 23399000000 23400000000 10800000000 12600000000 62100000000] s d
    by simp
qed

subsection \<open>Invalid themes and exceptions in the applier\<close>

text \<open>
  Claim C10. For a theme other than \<open>light\<close> and \<open>dark\<close>, \<^verbatim>\<open>set_windows_theme\<close>
  returns \<open>False\<close> and leaves the registry values, the icon and the broadcast count as
  they were. For every theme, whenever an operation of the \<^verbatim>\<open>try\<close> block raises,
  the function returns \<open>False\<close>.
\<close>

theorem C10_set_windows_theme_invalid_or_raising:
  "(theme \<noteq> ''light'' \<and> theme \<noteq> ''dark'' \<longrightarrow> set_windows_theme raises theme w = (False, w))
   \<and> (\<forall>x. fst (try_set_windows_theme raises theme w) = Inl x \<longrightarrow>
          fst (set_windows_theme raises theme w) = False)"
  by (auto simp add: set_windows_theme_def try_set_windows_theme_def split: prod.splits sum.splits)

theorem C10_set_windows_theme_witness:
  "set_windows_theme no_raise ''auto'' w0 = (False, w0)
   \<and> fst (try_set_windows_theme (only_raises SendMessageW) ''dark'' w0) = Inl (Raised SendMessageW)
   \<and> fst (set_windows_theme (only_raises SendMessageW) ''dark'' w0) = False"
  using C10_set_windows_theme_invalid_or_raising [of "''auto''" no_raise w0]
    C10_set_windows_theme_invalid_or_raising [of "''dark''" "only_raises SendMessageW" w0]
  by (simp add: try_set_windows_theme_def write_theme_def only_raises_def w0_def)

subsection \<open>One tick\<close>

lemma strftime_samples:
  "strftime_HMS 23399000000 = ''06:29:59''" "strftime_HMS 23400000000 = ''06:30:00''"
  "strftime_HMS 23401000000 = ''06:30:01''" "strftime_HMS 72899000000 = ''20:14:59''"
  "strftime_HMS 72900000000 = ''20:15:00''" "strftime_HMS 7200000000 = ''02:00:00''"
  "strftime_HMS 7260000000 = ''02:01:00''"
  by (simp_all add: strftime_HMS_def pad2_def digit_numerals hour_def minute_def second_def)

lemma env_day_schedule: "automatic_data env_day t = Some (''06:30:00'', ''20:15:00'')"
  by (simp add: automatic_data_def env_day_def sun_time_local_def strftime_samples)

lemma env_night_clock:
  "get_local_time (datetime_now env_night 0) = ''02:00:00''"
  "get_local_time (datetime_now env_night 60) = ''02:01:00''"
  "get_local_time (datetime_now env_locked 0) = ''02:00:00''"
  "get_local_time (datetime_now env_locked 60) = ''02:01:00''"
  by (simp_all add: get_local_time_def env_locked_def env_night_def strftime_samples)

lemma env_locked_fails: "\<not> fst (set_windows_theme (faults env_locked t) theme w)"
  by (simp add: set_windows_theme_def try_set_windows_theme_def env_locked_def only_raises_def)

lemma start_fields:
  "now (start e w) = 0" "os (start e w) = w" "current_applied_theme (start e w) = None"
  "calls (start e w) = []" "sleeps (start e w) = []" "backoff (start e w) = 30"
  "sun_times (start e w) = automatic_data e 0"
  by (simp_all add: start_def)

lemma tick_calls:
  "calls (tick e sunrise sunset s) =
     (let d = desired_theme sunrise (get_local_time (datetime_now e (now s))) sunset
      in if current_applied_theme s = Some d then calls s else calls s @ [(now s, d)])"
  by (auto simp add: tick_def apply_desired_def sleep_def Let_def split: prod.splits)

lemma tick_now: "now (tick e sunrise sunset s) = now s + 60"
  by (auto simp add: tick_def apply_desired_def sleep_def Let_def split: prod.splits)

lemma tick_current_applied_theme:
  "current_applied_theme (tick e sunrise sunset s) =
     (let d = desired_theme sunrise (get_local_time (datetime_now e (now s))) sunset
      in if current_applied_theme s \<noteq> Some d \<and> fst (set_windows_theme (faults e (now s)) d (os s))
         then Some d else current_applied_theme s)"
  by (auto simp add: tick_def apply_desired_def sleep_def Let_def split: prod.splits)

text \<open>
  Claim C7. If a tick calls \<^verbatim>\<open>set_windows_theme\<close> and the call returns
  \<open>False\<close>, the tick leaves \<open>current_applied_theme\<close> as it was, and the next tick
  with the same desired theme calls \<^verbatim>\<open>set_windows_theme\<close> again with the same
  argument. \<open>current_applied_theme\<close> changes only when the call returned \<open>True\<close>,
  and then to the desired theme.
\<close>

theorem C7_failed_apply_is_retried:
  "(let d = desired_theme sunrise (get_local_time (datetime_now e (now s))) sunset;
        ok = fst (set_windows_theme (faults e (now s)) d (os s));
        s' = tick e sunrise sunset s
    in (current_applied_theme s \<noteq> Some d \<and> \<not> ok \<longrightarrow>
          current_applied_theme s' = current_applied_theme s
          \<and> calls s' = calls s @ [(now s, d)]
          \<and> (desired_theme sunrise (get_local_time (datetime_now e (now s'))) sunset = d \<longrightarrow>
               calls (tick e sunrise sunset s') = calls s @ [(now s, d), (now s', d)]))
       \<and> (current_applied_theme s' \<noteq> current_applied_theme s \<longrightarrow>
            ok \<and> current_applied_theme s' = Some d)
       \<and> (current_applied_theme s \<noteq> Some d \<and> ok \<longrightarrow> current_applied_theme s' = Some d))"
  by (auto simp add: tick_calls tick_current_applied_theme tick_now Let_def)

theorem C7_failed_apply_witness:
  "current_applied_theme (start env_locked w0) = None
   \<and> \<not> fst (set_windows_theme (faults env_locked 0) ''dark'' w0)
   \<and> current_applied_theme (tick env_locked ''06:30:00'' ''20:15:00'' (start env_locked w0)) = None
   \<and> calls (tick env_locked ''06:30:00'' ''20:15:00'' (start env_locked w0)) = [(0, ''dark'')]"
proof -
  have d: "desired_theme ''06:30:00'' (get_local_time (datetime_now env_locked 0)) ''20:15:00'' = ''dark''"
    by (simp add: desired_theme_def env_night_clock)
  show ?thesis
    using C7_failed_apply_is_retried [of "''06:30:00''" env_locked "start env_locked w0" "''20:15:00''"]
      d env_locked_fails [of 0 "''dark''" w0]
    by (simp add: Let_def start_fields)
qed

text \<open>
  Claim C2, as stated: two ticks in succession with the same desired theme make exactly
  one call of \<^verbatim>\<open>set_windows_theme\<close>. It fails in both directions: in
  \<open>env_locked\<close> the first call returns \<open>False\<close> and the second tick calls again
  (two calls), and from \<open>night_applied\<close> neither tick calls (no call).
\<close>

theorem C2_two_ticks_not_always_one_call:
  "desired_theme ''06:30:00'' (get_local_time (datetime_now env_locked 0)) ''20:15:00'' = ''dark''
   \<and> desired_theme ''06:30:00'' (get_local_time (datetime_now env_locked 60)) ''20:15:00'' = ''dark''
   \<and> calls (start env_locked w0) = []
   \<and> calls (tick env_locked ''06:30:00'' ''20:15:00''
        (tick env_locked ''06:30:00'' ''20:15:00'' (start env_locked w0)))
      = [(0, ''dark''), (60, ''dark'')]
   \<and> desired_theme ''06:30:00'' (get_local_time (datetime_now env_night 0)) ''20:15:00'' = ''dark''
   \<and> desired_theme ''06:30:00'' (get_local_time (datetime_now env_night 60)) ''20:15:00'' = ''dark''
   \<and> calls night_applied = []
   \<and> calls (tick env_night ''06:30:00'' ''20:15:00''
        (tick env_night ''06:30:00'' ''20:15:00'' night_applied)) = []"
  by (simp add: tick_calls tick_now tick_current_applied_theme start_fields night_applied_def
      env_night_clock env_locked_fails desired_theme_def Let_def)

text \<open>
  Claim C2, amended. Over two ticks in succession with the same desired theme \<open>d\<close>:
  if \<open>d\<close> is already the applied theme, neither tick calls
  \<^verbatim>\<open>set_windows_theme\<close>; if it is not and the first call returns \<open>True\<close>, the
  first tick makes the one call and the second tick makes none; if the first call
  returns \<open>False\<close>, the second tick makes the same call again.
\<close>

theorem C2_two_ticks_at_most_one_successful_call:
  "(let d = desired_theme sunrise (get_local_time (datetime_now e (now s))) sunset;
        ok = fst (set_windows_theme (faults e (now s)) d (os s));
        s' = tick e sunrise sunset s;
        s'' = tick e sunrise sunset s'
    in desired_theme sunrise (get_local_time (datetime_now e (now s'))) sunset = d \<longrightarrow>
         (current_applied_theme s = Some d \<longrightarrow> calls s'' = calls s)
         \<and> (current_applied_theme s \<noteq> Some d \<and> ok \<longrightarrow>
              calls s' = calls s @ [(now s, d)] \<and> calls s'' = calls s')
         \<and> (current_applied_theme s \<noteq> Some d \<and> \<not> ok \<longrightarrow>
              calls s'' = calls s @ [(now s, d), (now s', d)]))"
  by (auto simp add: tick_calls tick_current_applied_theme tick_now Let_def)

theorem C2_two_ticks_witness:
  "current_applied_theme (start env_night w0) = None
   \<and> fst (set_windows_theme (faults env_night 0) ''dark'' w0)
   \<and> calls (tick env_night ''06:30:00'' ''20:15:00'' (start env_night w0)) = [(0, ''dark'')]
   \<and> calls (tick env_night ''06:30:00'' ''20:15:00''
        (tick env_night ''06:30:00'' ''20:15:00'' (start env_night w0))) = [(0, ''dark'')]"
proof -
  have d: "desired_theme ''06:30:00'' (get_local_time (datetime_now env_night 0)) ''20:15:00'' = ''dark''"
    "desired_theme ''06:30:00'' (get_local_time (datetime_now env_night 60)) ''20:15:00'' = ''dark''"
    by (simp_all add: desired_theme_def env_night_clock)
  have ok: "fst (set_windows_theme (faults env_night 0) ''dark'' w0)"
    by (simp add: set_windows_theme_def try_set_windows_theme_def write_theme_def env_night_def
        env_day_def no_raise_def w0_def)
  show ?thesis
    using C2_two_ticks_at_most_one_successful_call
      [of "''06:30:00''" env_night "start env_night w0" "''20:15:00''"] d ok
    by (simp add: Let_def start_fields tick_now)
qed

subsection \<open>The first loop: resolving the schedule with backoff\<close>

lemma resolve_loop_continue:
  "sun_times s = None \<Longrightarrow> \<not> is_set e (now s) \<Longrightarrow> resolve_loop e s = resolve_loop e (retry e s)"
  by (subst resolve_loop.simps) simp

lemma resolve_loop_stop:
  "sun_times s \<noteq> None \<or> is_set e (now s) \<Longrightarrow> resolve_loop e s = Some s"
  by (subst resolve_loop.simps) auto

lemma poll_loop_continue:
  "\<not> is_set e (now s) \<Longrightarrow> poll_loop e sunrise sunset s = poll_loop e sunrise sunset (tick e sunrise sunset s)"
  by (subst poll_loop.simps) simp

lemma poll_loop_stop:
  "is_set e (now s) \<Longrightarrow> poll_loop e sunrise sunset s = Some s"
  by (subst poll_loop.simps) simp

lemma retry_fields:
  "now (retry e s) = now s + backoff s"
  "backoff (retry e s) = min (backoff s * 2) 600"
  "sleeps (retry e s) = sleeps s @ [backoff s]"
  "sun_times (retry e s) = automatic_data e (now s + backoff s)"
  "calls (retry e s) = calls s"
  "os (retry e s) = os s"
  "current_applied_theme (retry e s) = current_applied_theme s"
  by (simp_all add: retry_def sleep_def max_backoff_def Let_def)

lemma attempt_time_simps:
  "attempt_time 0 = 0" "attempt_time (Suc k) = attempt_time k + backoff_after k"
  by (simp_all add: attempt_time_def)

lemma retries_from_start:
  "now ((retry e ^^ k) (start e w)) = attempt_time k
   \<and> backoff ((retry e ^^ k) (start e w)) = backoff_after k
   \<and> sleeps ((retry e ^^ k) (start e w)) = map backoff_after [0..<k]
   \<and> sun_times ((retry e ^^ k) (start e w)) = automatic_data e (attempt_time k)
   \<and> calls ((retry e ^^ k) (start e w)) = []
   \<and> os ((retry e ^^ k) (start e w)) = w
   \<and> current_applied_theme ((retry e ^^ k) (start e w)) = None"
  by (induction k) (simp_all add: start_fields retry_fields attempt_time_simps)

lemma resolve_loop_retries:
  assumes "\<forall>i<k. sun_times ((retry e ^^ i) s) = None \<and> \<not> is_set e (now ((retry e ^^ i) s))"
  shows "resolve_loop e s = resolve_loop e ((retry e ^^ k) s)"
  using assms
proof (induction k)
  case 0
  show ?case by simp
next
  case (Suc k)
  then have "resolve_loop e s = resolve_loop e ((retry e ^^ k) s)" by simp
  also have "\<dots> = resolve_loop e (retry e ((retry e ^^ k) s))"
    using Suc.prems by (intro resolve_loop_continue) simp_all
  finally show ?case by simp
qed

lemma backoff_after_bounds: "30 \<le> backoff_after k \<and> backoff_after k \<le> 600"
  by (induction k) simp_all

lemma backoff_after_mono_Suc: "backoff_after k \<le> backoff_after (Suc k)"
  using backoff_after_bounds [of k] by simp

lemma backoff_after_mono: "i \<le> j \<Longrightarrow> backoff_after i \<le> backoff_after j"
  by (rule lift_Suc_mono_le [of backoff_after]) (rule backoff_after_mono_Suc)

text \<open>
  Claim C3. When the first \<open>k\<close> attempts to resolve the schedule fail and the stop
  event is not set at these attempts, and attempt \<open>k\<close> succeeds or finds the stop
  event set, the first loop returns after exactly \<open>k\<close> waits: the first is 30
  seconds, each later one is \<open>min (previous * 2) 600\<close>, so the waits never decrease
  and never exceed 600. This holds for every \<open>k\<close>: there is no bound on the number
  of retries. No theme is applied in this phase, and with a schedule resolved the
  run-loop goes on to the polling loop.
\<close>

theorem C3_backoff_waits:
  assumes "\<forall>i<k. automatic_data e (attempt_time i) = None \<and> \<not> is_set e (attempt_time i)"
    and "automatic_data e (attempt_time k) \<noteq> None \<or> is_set e (attempt_time k)"
  shows "\<exists>s. resolve_loop e (start e w) = Some s
           \<and> sun_times s = automatic_data e (attempt_time k)
           \<and> now s = attempt_time k
           \<and> length (sleeps s) = k
           \<and> (0 < k \<longrightarrow> sleeps s ! 0 = 30)
           \<and> (\<forall>i. Suc i < k \<longrightarrow> sleeps s ! Suc i = min (sleeps s ! i * 2) 600)
           \<and> (\<forall>i j. i \<le> j \<and> j < k \<longrightarrow> sleeps s ! i \<le> sleeps s ! j)
           \<and> (\<forall>i<k. sleeps s ! i \<le> 600)
           \<and> calls s = []
           \<and> (\<forall>sunrise sunset. sun_times s = Some (sunrise, sunset) \<longrightarrow>
                automatic_theme e w = poll_loop e sunrise sunset (s\<lparr>current_applied_theme := None\<rparr>))"
proof -
  let ?s = "(retry e ^^ k) (start e w)"
  note f = retries_from_start [where e = e and w = w]
  have "resolve_loop e (start e w) = resolve_loop e ?s"
    using assms(1) by (intro resolve_loop_retries) (simp add: f)
  also have "\<dots> = Some ?s"
    using assms(2) by (intro resolve_loop_stop) (simp add: f)
  finally have r: "resolve_loop e (start e w) = Some ?s" .
  have "sleeps ?s ! i \<le> sleeps ?s ! j" if "i \<le> j \<and> j < k" for i j
    using that by (simp add: f backoff_after_mono)
  moreover have "sleeps ?s ! i \<le> 600" if "i < k" for i
    using that backoff_after_bounds [of i] by (simp add: f)
  moreover have "automatic_theme e w = poll_loop e sunrise sunset (?s\<lparr>current_applied_theme := None\<rparr>)"
    if "sun_times ?s = Some (sunrise, sunset)" for sunrise sunset
    using that by (simp add: automatic_theme_def r)
  ultimately show ?thesis
    using r by (simp add: f)
qed

text \<open>Two failures, then success: the loop sleeps 30 and 60 seconds.\<close>

lemma env_flaky_data:
  "automatic_data env_flaky t = (if t < 90 then None else Some (''06:30:00'', ''20:15:00''))"
  by (simp add: automatic_data_def env_flaky_def env_day_def sun_time_local_def strftime_samples)

lemma env_flaky_is_set: "is_set env_flaky t = (240 \<le> t)"
  by (simp add: env_flaky_def env_day_def)

lemma attempt_time_numerals: "attempt_time 1 = 30" "attempt_time 2 = 90"
  by (simp_all add: attempt_time_def numeral_2_eq_2)

theorem C3_backoff_waits_witness:
  "automatic_data env_flaky 0 = None \<and> automatic_data env_flaky 30 = None
   \<and> map_option sleeps (resolve_loop env_flaky (start env_flaky w0)) = Some [30, 60]
   \<and> map_option sun_times (resolve_loop env_flaky (start env_flaky w0))
       = Some (Some (''06:30:00'', ''20:15:00''))
   \<and> map_option now (resolve_loop env_flaky (start env_flaky w0)) = Some 90"
proof -
  have a: "\<forall>i<2. automatic_data env_flaky (attempt_time i) = None \<and> \<not> is_set env_flaky (attempt_time i)"
    by (simp add: less_Suc_eq numeral_2_eq_2 attempt_time_simps env_flaky_data env_flaky_is_set)
  have b: "automatic_data env_flaky (attempt_time 2) \<noteq> None \<or> is_set env_flaky (attempt_time 2)"
    by (simp add: attempt_time_numerals env_flaky_data)
  from C3_backoff_waits [OF a b, of w0]
  obtain s where s: "resolve_loop env_flaky (start env_flaky w0) = Some s"
    "sun_times s = automatic_data env_flaky (attempt_time 2)" "now s = attempt_time 2"
    "length (sleeps s) = 2" "sleeps s ! 0 = 30" "sleeps s ! Suc 0 = min (sleeps s ! 0 * 2) 600"
    by auto
  from s(4) obtain x y where xy: "sleeps s = [x, y]"
    by (auto simp add: numeral_2_eq_2 length_Suc_conv)
  with s(5,6) have "sleeps s = [30, 60]" by simp
  with s show ?thesis
    by (simp add: attempt_time_numerals env_flaky_data)
qed

subsection \<open>The second loop: four ticks of the scenario\<close>

lemma set_windows_theme_succeeds:
  assumes "\<forall>op. \<not> raises op" and "theme = ''light'' \<or> theme = ''dark''"
  shows "fst (set_windows_theme raises theme w)"
  using assms
  by (auto simp add: set_windows_theme_def try_set_windows_theme_def write_theme_def Let_def)

lemma desired_theme_cases:
  "desired_theme sunrise t sunset = ''light'' \<or> desired_theme sunrise t sunset = ''dark''"
  by (simp add: desired_theme_def)

lemma tick_sleeps: "sleeps (tick e sunrise sunset s) = sleeps s @ [60]"
  by (auto simp add: tick_def apply_desired_def sleep_def Let_def split: prod.splits)

lemma tick_sun_times: "sun_times (tick e sunrise sunset s) = sun_times s"
  by (auto simp add: tick_def apply_desired_def sleep_def Let_def split: prod.splits)

lemma env_day_clock:
  "get_local_time (datetime_now env_day 0) = ''06:29:59''"
  "get_local_time (datetime_now env_day 60) = ''06:30:01''"
  "get_local_time (datetime_now env_day 120) = ''20:14:59''"
  "get_local_time (datetime_now env_day 180) = ''20:15:00''"
  by (simp_all add: get_local_time_def env_day_def strftime_samples)

lemma env_day_is_set: "is_set env_day t = (240 \<le> t)"
  by (simp add: env_day_def)

lemma env_day_no_faults: "\<not> faults env_day t op"
  by (simp add: env_day_def no_raise_def)

lemma scenario_desired:
  "desired_theme ''06:30:00'' ''06:29:59'' ''20:15:00'' = ''dark''"
  "desired_theme ''06:30:00'' ''06:30:01'' ''20:15:00'' = ''light''"
  "desired_theme ''06:30:00'' ''20:14:59'' ''20:15:00'' = ''light''"
  "desired_theme ''06:30:00'' ''20:15:00'' ''20:15:00'' = ''dark''"
  by (simp_all add: desired_theme_def)

text \<open>
  The scenario run: the schedule \<open>06:30:00\<close> to \<open>20:15:00\<close> resolved at the first
  attempt, the four clock readings, the stop event set only after the fourth tick,
  and no call raising.
\<close>

lemma four_ticks_run:
  assumes sched: "automatic_data e 0 = Some (''06:30:00'', ''20:15:00'')"
    and clock: "get_local_time (datetime_now e 0) = ''06:29:59''"
      "get_local_time (datetime_now e 60) = ''06:30:01''"
      "get_local_time (datetime_now e 120) = ''20:14:59''"
      "get_local_time (datetime_now e 180) = ''20:15:00''"
    and running: "\<not> is_set e 0" "\<not> is_set e 60" "\<not> is_set e 120" "\<not> is_set e 180"
    and cancelled: "is_set e 240"
    and ok: "\<forall>t op. \<not> faults e t op"
  shows "\<exists>s. automatic_theme e w = Some s
           \<and> calls s = [(0, ''dark''), (60, ''light''), (180, ''dark'')]
           \<and> length (calls s) = 3
           \<and> current_applied_theme s = Some ''dark''
           \<and> sleeps s = [60, 60, 60, 60]"
proof -
  let ?t = "tick e ''06:30:00'' ''20:15:00''"
  let ?s0 = "(start e w)\<lparr>current_applied_theme := None\<rparr>"
  have applied: "fst (set_windows_theme (faults e t) theme w')"
    if "theme = ''light'' \<or> theme = ''dark''" for t theme w'
    using ok that by (intro set_windows_theme_succeeds) simp_all
  have r: "resolve_loop e (start e w) = Some (start e w)"
    by (intro resolve_loop_stop) (simp add: start_fields sched)
  have a: "automatic_theme e w = poll_loop e ''06:30:00'' ''20:15:00'' ?s0"
    by (simp add: automatic_theme_def r start_fields sched)
  have s1: "now (?t ?s0) = 60" "calls (?t ?s0) = [(0, ''dark'')]"
    "current_applied_theme (?t ?s0) = Some ''dark''" "sleeps (?t ?s0) = [60]"
    by (simp_all add: tick_now tick_calls tick_current_applied_theme tick_sleeps start_fields
        clock scenario_desired applied Let_def)
  have s2: "now (?t (?t ?s0)) = 120" "calls (?t (?t ?s0)) = [(0, ''dark''), (60, ''light'')]"
    "current_applied_theme (?t (?t ?s0)) = Some ''light''" "sleeps (?t (?t ?s0)) = [60, 60]"
    by (simp_all add: tick_now tick_calls tick_current_applied_theme tick_sleeps s1 start_fields
        clock scenario_desired applied Let_def)
  have s3: "now (?t (?t (?t ?s0))) = 180"
    "calls (?t (?t (?t ?s0))) = [(0, ''dark''), (60, ''light'')]"
    "current_applied_theme (?t (?t (?t ?s0))) = Some ''light''"
    "sleeps (?t (?t (?t ?s0))) = [60, 60, 60]"
    by (simp_all add: tick_now tick_calls tick_current_applied_theme tick_sleeps s2 start_fields
        clock scenario_desired applied Let_def)
  have s4: "now (?t (?t (?t (?t ?s0)))) = 240"
    "calls (?t (?t (?t (?t ?s0)))) = [(0, ''dark''), (60, ''light''), (180, ''dark'')]"
    "current_applied_theme (?t (?t (?t (?t ?s0)))) = Some ''dark''"
    "sleeps (?t (?t (?t (?t ?s0)))) = [60, 60, 60, 60]"
    by (simp_all add: tick_now tick_calls tick_current_applied_theme tick_sleeps s3 start_fields
        clock scenario_desired applied Let_def)
  have "poll_loop e ''06:30:00'' ''20:15:00'' ?s0 = poll_loop e ''06:30:00'' ''20:15:00'' (?t ?s0)"
    by (intro poll_loop_continue) (simp add: start_fields running)
  also have "\<dots> = poll_loop e ''06:30:00'' ''20:15:00'' (?t (?t ?s0))"
    by (intro poll_loop_continue) (simp add: s1 running)
  also have "\<dots> = poll_loop e ''06:30:00'' ''20:15:00'' (?t (?t (?t ?s0)))"
    by (intro poll_loop_continue) (simp add: s2 running)
  also have "\<dots> = poll_loop e ''06:30:00'' ''20:15:00'' (?t (?t (?t (?t ?s0))))"
    by (intro poll_loop_continue) (simp add: s3 running)
  also have "\<dots> = Some (?t (?t (?t (?t ?s0))))"
    by (intro poll_loop_stop) (simp add: s4 cancelled)
  finally show ?thesis
    using a s4 by simp
qed

text \<open>
  Claim C4, as stated: the four ticks compute the desired themes dark, light, light,
  dark and call \<^verbatim>\<open>set_windows_theme\<close> exactly twice. The desired themes are as
  stated, but a fresh run-loop starts from \<^verbatim>\<open>current_applied_theme = None\<close>, so the
  first tick already applies \<open>dark\<close>: in \<open>env_day\<close> there are three calls, at the
  first, second and fourth tick.
\<close>

theorem C4_scenario_not_two_calls:
  "desired_theme ''06:30:00'' (get_local_time (datetime_now env_day 0)) ''20:15:00'' = ''dark''
   \<and> desired_theme ''06:30:00'' (get_local_time (datetime_now env_day 60)) ''20:15:00'' = ''light''
   \<and> desired_theme ''06:30:00'' (get_local_time (datetime_now env_day 120)) ''20:15:00'' = ''light''
   \<and> desired_theme ''06:30:00'' (get_local_time (datetime_now env_day 180)) ''20:15:00'' = ''dark''
   \<and> map_option calls (automatic_theme env_day w0)
       = Some [(0, ''dark''), (60, ''light''), (180, ''dark'')]
   \<and> map_option (length \<circ> calls) (automatic_theme env_day w0) = Some 3"
proof -
  have "\<forall>t op. \<not> faults env_day t op"
    by (simp add: env_day_no_faults)
  from four_ticks_run [OF env_day_schedule env_day_clock _ _ _ _ _ this, of w0]
  show ?thesis
    by (auto simp add: env_day_is_set env_day_clock scenario_desired)
qed

text \<open>
  Claim C4, amended. With every call of \<^verbatim>\<open>set_windows_theme\<close> succeeding, a fresh
  run-loop on this scenario calls it exactly three times: \<open>dark\<close> at the first tick
  (nothing was applied yet), \<open>light\<close> at the second and \<open>dark\<close> at the fourth; the
  third tick makes no call.
\<close>

theorem C4_scenario_three_calls:
  assumes sched: "automatic_data e 0 = Some (''06:30:00'', ''20:15:00'')"
    and clock: "get_local_time (datetime_now e 0) = ''06:29:59''"
      "get_local_time (datetime_now e 60) = ''06:30:01''"
      "get_local_time (datetime_now e 120) = ''20:14:59''"
      "get_local_time (datetime_now e 180) = ''20:15:00''"
    and running: "\<not> is_set e 0" "\<not> is_set e 60" "\<not> is_set e 120" "\<not> is_set e 180"
    and cancelled: "is_set e 240"
    and ok: "\<forall>t op. \<not> faults e t op"
  shows "\<exists>s. automatic_theme e w = Some s
           \<and> calls s = [(0, ''dark''), (60, ''light''), (180, ''dark'')]
           \<and> length (calls s) = 3
           \<and> current_applied_theme s = Some ''dark''
           \<and> sleeps s = [60, 60, 60, 60]"
  using assms by (rule four_ticks_run)

theorem C4_scenario_witness:
  "automatic_data env_day 0 = Some (''06:30:00'', ''20:15:00'')
   \<and> is_set env_day 240
   \<and> map_option sleeps (automatic_theme env_day w0) = Some [60, 60, 60, 60]
   \<and> map_option current_applied_theme (automatic_theme env_day w0) = Some (Some ''dark'')"
proof -
  have "\<forall>t op. \<not> faults env_day t op"
    by (simp add: env_day_no_faults)
  from C4_scenario_three_calls [OF env_day_schedule env_day_clock _ _ _ _ _ this, of w0]
  show ?thesis
    by (auto simp add: env_day_is_set env_day_schedule)
qed

subsection \<open>Cancellation\<close>

lemma waits_complete_retry:
  assumes "waits_complete r s" "now s < r"
  shows "waits_complete r (retry e s)"
  using assms by (simp add: waits_complete_def retry_fields)

lemma waits_complete_tick:
  assumes "waits_complete r s" "now s < r"
  shows "waits_complete r (tick e sunrise sunset s)"
  using assms by (auto simp add: waits_complete_def tick_now tick_sleeps tick_calls Let_def)

lemma resolve_loop_cancelled:
  assumes "\<forall>t. is_set e t \<longleftrightarrow> r \<le> t" and "waits_complete r s" and "0 < backoff s"
  shows "\<exists>s'. resolve_loop e s = Some s' \<and> waits_complete r s'
           \<and> (sun_times s' = None \<longrightarrow> r \<le> now s')"
  using assms(2,3)
proof (induction "r - now s" arbitrary: s rule: less_induct)
  case less
  show ?case
  proof (cases "sun_times s = None \<and> now s < r")
    case True
    then have go: "resolve_loop e s = resolve_loop e (retry e s)"
      using assms(1) by (intro resolve_loop_continue) simp_all
    have "r - now (retry e s) < r - now s"
      using True less.prems(2) by (simp add: retry_fields) arith
    moreover have "waits_complete r (retry e s)"
      using less.prems(1) True by (intro waits_complete_retry) simp_all
    moreover have "0 < backoff (retry e s)"
      using less.prems(2) by (simp add: retry_fields)
    ultimately show ?thesis
      using less.hyps [of "retry e s"] go by simp
  next
    case False
    then have "resolve_loop e s = Some s"
      using assms(1) by (intro resolve_loop_stop) auto
    then show ?thesis
      using less.prems(1) False by auto
  qed
qed

lemma poll_loop_cancelled:
  assumes "\<forall>t. is_set e t \<longleftrightarrow> r \<le> t" and "waits_complete r s"
  shows "\<exists>s'. poll_loop e sunrise sunset s = Some s' \<and> waits_complete r s' \<and> r \<le> now s'"
  using assms(2)
proof (induction "r - now s" arbitrary: s rule: less_induct)
  case less
  show ?case
  proof (cases "now s < r")
    case True
    then have go: "poll_loop e sunrise sunset s = poll_loop e sunrise sunset (tick e sunrise sunset s)"
      using assms(1) by (intro poll_loop_continue) simp
    have "r - now (tick e sunrise sunset s) < r - now s"
      using True by (simp add: tick_now)
    moreover have "waits_complete r (tick e sunrise sunset s)"
      using less.prems True by (intro waits_complete_tick)
    ultimately show ?thesis
      using less.hyps [of "tick e sunrise sunset s"] go by simp
  next
    case False
    then have "poll_loop e sunrise sunset s = Some s"
      using assms(1) by (intro poll_loop_stop) simp
    then show ?thesis
      using less.prems False by auto
  qed
qed

lemma automatic_theme_cancelled:
  assumes "\<forall>t. is_set e t \<longleftrightarrow> r \<le> t"
  shows "\<exists>s. automatic_theme e w = Some s \<and> waits_complete r s \<and> r \<le> now s"
proof -
  have "\<exists>s'. resolve_loop e (start e w) = Some s' \<and> waits_complete r s'
          \<and> (sun_times s' = None \<longrightarrow> r \<le> now s')"
    by (rule resolve_loop_cancelled [OF assms]) (simp_all add: waits_complete_def start_fields)
  then obtain s1 where s1: "resolve_loop e (start e w) = Some s1" "waits_complete r s1"
    "sun_times s1 = None \<longrightarrow> r \<le> now s1"
    by (elim exE conjE)
  show ?thesis
  proof (cases "sun_times s1")
    case None
    then show ?thesis
      using s1 by (simp add: automatic_theme_def)
  next
    case (Some p)
    obtain sunrise sunset where p: "p = (sunrise, sunset)" by (cases p)
    have "waits_complete r (s1\<lparr>current_applied_theme := None\<rparr>)"
      using s1(2) by (auto simp add: waits_complete_def)
    from poll_loop_cancelled [OF assms this, of sunrise sunset]
    show ?thesis
      using s1(1) Some p by (simp add: automatic_theme_def)
  qed
qed

lemma env_cancel_is_set:
  "is_set env_cancel_tick t = (1 \<le> t)" "is_set env_cancel_backoff t = (1 \<le> t)"
  by (simp_all add: env_cancel_tick_def env_cancel_backoff_def)

lemma env_cancel_data:
  "automatic_data env_cancel_tick t = Some (''06:30:00'', ''20:15:00'')"
  "automatic_data env_cancel_backoff t = (if t < 90 then None else Some (''06:30:00'', ''20:15:00''))"
  by (simp_all add: automatic_data_def env_cancel_tick_def env_cancel_backoff_def env_flaky_def
      env_day_def sun_time_local_def strftime_samples)

text \<open>
  Claim C5, as stated: raising the stop event during a wait ends the run-loop without
  completing that wait. \<^verbatim>\<open>time.sleep\<close> does not look at the event: with the event
  set one second into the first wait, the polling loop ends only after the full 60
  seconds, and the backoff loop only after the full 30 seconds.
\<close>

theorem C5_wait_is_not_interrupted:
  "\<not> is_set env_cancel_tick 0 \<and> is_set env_cancel_tick 1
   \<and> map_option sleeps (automatic_theme env_cancel_tick w0) = Some [60]
   \<and> map_option now (automatic_theme env_cancel_tick w0) = Some 60
   \<and> \<not> is_set env_cancel_backoff 0 \<and> is_set env_cancel_backoff 1
   \<and> map_option sleeps (automatic_theme env_cancel_backoff w0) = Some [30]
   \<and> map_option now (automatic_theme env_cancel_backoff w0) = Some 30"
proof -
  let ?t = "tick env_cancel_tick ''06:30:00'' ''20:15:00''"
  let ?s0 = "(start env_cancel_tick w0)\<lparr>current_applied_theme := None\<rparr>"
  have "resolve_loop env_cancel_tick (start env_cancel_tick w0) = Some (start env_cancel_tick w0)"
    by (intro resolve_loop_stop) (simp add: start_fields env_cancel_data)
  then have "automatic_theme env_cancel_tick w0 = poll_loop env_cancel_tick ''06:30:00'' ''20:15:00'' ?s0"
    by (simp add: automatic_theme_def start_fields env_cancel_data)
  also have "\<dots> = poll_loop env_cancel_tick ''06:30:00'' ''20:15:00'' (?t ?s0)"
    by (intro poll_loop_continue) (simp add: start_fields env_cancel_is_set)
  also have "\<dots> = Some (?t ?s0)"
    by (intro poll_loop_stop) (simp add: tick_now start_fields env_cancel_is_set)
  finally have a: "automatic_theme env_cancel_tick w0 = Some (?t ?s0)" .
  let ?b0 = "start env_cancel_backoff w0"
  have "resolve_loop env_cancel_backoff ?b0 = resolve_loop env_cancel_backoff (retry env_cancel_backoff ?b0)"
    by (intro resolve_loop_continue) (simp_all add: start_fields env_cancel_data env_cancel_is_set)
  also have "\<dots> = Some (retry env_cancel_backoff ?b0)"
    by (intro resolve_loop_stop) (simp add: retry_fields start_fields env_cancel_is_set)
  finally have "automatic_theme env_cancel_backoff w0 = Some (retry env_cancel_backoff ?b0)"
    by (simp add: automatic_theme_def retry_fields start_fields env_cancel_data)
  with a show ?thesis
    by (simp add: tick_now tick_sleeps retry_fields start_fields env_cancel_is_set)
qed

text \<open>
  Claim C5, amended. When the stop event is raised at instant \<open>r\<close> and stays set, the
  run-loop terminates; it does so at a loop check at or after \<open>r\<close>, after the wait
  in progress has run its full duration (the elapsed time is the sum of the sleeps,
  and the last sleep began before \<open>r\<close>); and it makes no call of
  \<^verbatim>\<open>set_windows_theme\<close> at or after \<open>r\<close>.
\<close>

theorem C5_cancellation_ends_loop_after_wait:
  assumes "\<forall>t. is_set e t \<longleftrightarrow> r \<le> t"
  shows "\<exists>s. automatic_theme e w = Some s
           \<and> r \<le> now s
           \<and> now s = sum_list (sleeps s)
           \<and> (sleeps s \<noteq> [] \<longrightarrow> now s - last (sleeps s) < r)
           \<and> (\<forall>c \<in> set (calls s). fst c < r)"
  using automatic_theme_cancelled [OF assms, of w] by (auto simp add: waits_complete_def)

theorem C5_cancellation_witness:
  "is_set env_cancel_tick 1 \<and> \<not> is_set env_cancel_tick 0
   \<and> (\<exists>s. automatic_theme env_cancel_tick w0 = Some s \<and> 1 \<le> now s
          \<and> now s = sum_list (sleeps s))"
proof -
  have "\<forall>t. is_set env_cancel_tick t \<longleftrightarrow> 1 \<le> t"
    by (simp add: env_cancel_is_set)
  from C5_cancellation_ends_loop_after_wait [OF this, of w0]
  show ?thesis
    by (auto simp add: env_cancel_is_set)
qed

subsection \<open>Start-up\<close>

text \<open>
  Claim C8, as stated: the start-up routine enters Automatic mode whatever the reading
  of the current theme, also when the reading fails. When the reading fails
  (\<^verbatim>\<open>get_current_theme\<close> returns \<^verbatim>\<open>None\<close>), lines 325-326 return at once: no icon and
  no run-loop.
\<close>

theorem C8_startup_needs_the_reading:
  "get_current_theme (only_raises OpenKeyRead) (machine (initial w0)) = None
   \<and> create_tray_icon (only_raises OpenKeyRead) (initial w0) = Inr (initial w0)
   \<and> started (initial w0) = 0"
  by (simp add: create_tray_icon_def get_current_theme_def only_raises_def initial_def)

text \<open>
  Claim C8, amended. When the reading fails, the routine returns with nothing changed
  and no run-loop started. When it succeeds and the icon image loads, the routine
  starts exactly one run-loop on a fresh, unset event, whatever the value read; the
  value only chooses the icon (light for every value but 0), and the registry is left
  as it was.
\<close>

theorem C8_startup_enters_automatic_after_a_reading:
  "(get_current_theme raises (machine g) = None \<longrightarrow> create_tray_icon raises g = Inr g)
   \<and> (\<forall>v. get_current_theme raises (machine g) = Some v \<and> \<not> raises ImageOpen \<longrightarrow>
         (\<exists>g'. create_tray_icon raises g = Inr g'
            \<and> started g' = started g + 1
            \<and> \<not> stop_event_is_set g'
            \<and> icon (machine g') = Some (if v \<noteq> 0 then ''lib/icon_light.png'' else ''lib/icon_dark.png'')
            \<and> AppsUseLightTheme (machine g') = AppsUseLightTheme (machine g)
            \<and> SystemUsesLightTheme (machine g') = SystemUsesLightTheme (machine g)))"
  by (auto simp add: create_tray_icon_def start_automatic_def stop_event_is_set_def Let_def)

theorem C8_startup_witness:
  "get_current_theme no_raise (machine (initial w0)) = Some 1
   \<and> create_tray_icon no_raise (initial w0) = Inr after_startup
   \<and> started after_startup = 1"
  using C8_startup_enters_automatic_after_a_reading [of no_raise "initial w0"]
  by (simp add: create_tray_icon_def get_current_theme_def no_raise_def initial_def w0_def
      start_automatic_def after_startup_def)

subsection \<open>Selecting a mode\<close>

text \<open>
  Claim C6, as stated: selecting Automatic while a run-loop is live is a no-op, and at
  most one run-loop is ever live. After a start-up one run-loop is started and the
  stop event is not set; selecting Automatic then starts a second thread. The event
  of the first run-loop is set, but the global name is bound to the new event, which
  is what every loop check reads, and that one is not set.
\<close>

theorem C6_reselecting_automatic_starts_second_loop:
  "create_tray_icon no_raise (initial w0) = Inr after_startup
   \<and> started after_startup = 1
   \<and> \<not> stop_event_is_set after_startup
   \<and> started (select_theme no_raise ''auto'' after_startup) = 2
   \<and> events (select_theme no_raise ''auto'' after_startup) = [False, True, False]
   \<and> stop_event (select_theme no_raise ''auto'' after_startup) = 2
   \<and> \<not> stop_event_is_set (select_theme no_raise ''auto'' after_startup)"
  by (simp add: create_tray_icon_def get_current_theme_def no_raise_def initial_def w0_def
      start_automatic_def after_startup_def select_theme_def stop_event_set_def
      stop_event_is_set_def Let_def)

text \<open>
  Claim C6, amended. Selecting any mode first sets the event the global name is bound
  to: the signal of the previous run-loop is raised before anything else happens.
  Selecting Automatic then always binds a fresh, unset event and starts one more
  run-loop, whether or not one is live, and leaves the operating system untouched.
  Selecting a manual theme starts no run-loop, leaves the event set and applies the
  theme.
\<close>

theorem C6_select_theme_raises_then_starts:
  assumes "stop_event g < length (events g)"
  shows "stop_event_is_set (stop_event_set g)
   \<and> events (select_theme raises theme g) ! stop_event g
   \<and> (theme = ''auto'' \<longrightarrow>
        start_automatic (stop_event_set g) = select_theme raises theme g
        \<and> started (select_theme raises theme g) = started g + 1
        \<and> stop_event (select_theme raises theme g) = length (events g)
        \<and> \<not> stop_event_is_set (select_theme raises theme g)
        \<and> machine (select_theme raises theme g) = machine g)
   \<and> (theme \<noteq> ''auto'' \<longrightarrow>
        started (select_theme raises theme g) = started g
        \<and> stop_event_is_set (select_theme raises theme g)
        \<and> machine (select_theme raises theme g) = snd (set_windows_theme raises theme (machine g)))"
  using assms
  by (auto simp add: select_theme_def start_automatic_def stop_event_set_def
      stop_event_is_set_def Let_def nth_append)

theorem C6_select_theme_witness:
  "stop_event after_startup < length (events after_startup)
   \<and> started (select_theme no_raise ''auto'' after_startup) = 2
   \<and> events (select_theme no_raise ''auto'' after_startup) ! 1
   \<and> started (select_theme no_raise ''dark'' after_startup) = 1
   \<and> stop_event_is_set (select_theme no_raise ''dark'' after_startup)"
proof -
  have wf: "stop_event after_startup < length (events after_startup)"
    by (simp add: after_startup_def)
  have f: "stop_event after_startup = 1" "started after_startup = 1"
    by (simp_all add: after_startup_def)
  have "''dark'' \<noteq> ''auto''" by simp
  then show ?thesis
    using C6_select_theme_raises_then_starts [OF wf, of no_raise "''auto''"]
      C6_select_theme_raises_then_starts [OF wf, of no_raise "''dark''"] wf
    unfolding f by simp
qed

end
